theory Spec2Isabelle
  imports Main
begin

section \<open>Values, objects and the program state\<close>

text \<open>
  The library is one TypeScript class \<^verbatim>\<open>Option<T>\<close> with two subclasses \<^verbatim>\<open>Some<T>\<close>
  and \<^verbatim>\<open>None<T>\<close> (\<^verbatim>\<open>src/Option.ts\<close>) and two factory functions (\<^verbatim>\<open>src/index.ts\<close>).
  Several operations are specified by object identity ("the same instance", "a new
  instance"), so objects live in a heap and are referred to by address. An address is
  the index of the object in the list of all objects allocated so far; \<^verbatim>\<open>new\<close> appends.
\<close>

type_synonym addr = nat

text \<open>
  A JavaScript value as far as the container can tell values apart: the container only
  stores values, hands them to callbacks, and asks \<^verbatim>\<open>instanceof Some\<close> of them.
  \<open>Num\<close> stands for a number payload; the container never computes with it.
\<close>

datatype val = Undefined | Null | Bool bool | Num int | Str string | Ref addr

text \<open>The three classes of \<^verbatim>\<open>Option.ts\<close>; \<open>SomeC\<close> and \<open>NoneC\<close> extend \<open>OptionC\<close>.\<close>

datatype cls = OptionC | SomeC | NoneC

text \<open>An instance: its class (its prototype) and the private field \<^verbatim>\<open>_value\<close>.\<close>

record obj =
  class_of :: cls
  priv_value :: val

text \<open>
  \<^verbatim>\<open>class OptionError extends Error\<close> carries a message; \<open>Thrown\<close> is any other value a
  caller-supplied function throws.
\<close>

datatype exn = OptionError string | Thrown val

definition illegalUnwrap :: exn where
  "illegalUnwrap = OptionError ''tried to unwrap on None''"

definition illegalInstantiation :: exn where
  "illegalInstantiation = OptionError ''Option must be an instance of Some or None''"

text \<open>
  The state is the heap together with \<open>world\<close>, everything else a caller-supplied
  function can read or change (its own variables, counters, output). The library itself
  never touches \<open>world\<close>.
\<close>

record 'w state =
  heap :: "obj list"
  world :: 'w

text \<open>
  A computation runs on a state and ends either normally with a result or abruptly
  with a thrown exception; in both cases the effects made so far persist.
\<close>

type_synonym ('a, 'w) prog = "'w state \<Rightarrow> (exn + 'a) \<times> 'w state"

definition seqP :: "('a, 'w) prog \<Rightarrow> ('a \<Rightarrow> ('b, 'w) prog) \<Rightarrow> ('b, 'w) prog" where
  "seqP m f s = (case m s of (Inl e, s') \<Rightarrow> (Inl e, s') | (Inr x, s') \<Rightarrow> f x s')"

definition live :: "'w state \<Rightarrow> addr \<Rightarrow> bool" where
  "live s a = (a < length (heap s))"

text \<open>\<^verbatim>\<open>D extends C\<close>, reflexively: the prototype chain of the three classes.\<close>

fun subclass_of :: "cls \<Rightarrow> cls \<Rightarrow> bool" where
  "subclass_of D C = (D = C \<or> C = OptionC)"

text \<open>
  \<^verbatim>\<open>v instanceof C\<close>: false for every primitive value, and for a reference it follows the
  class of the object referred to.
\<close>

definition instanceof :: "'w state \<Rightarrow> val \<Rightarrow> cls \<Rightarrow> bool" where
  "instanceof s v C =
     (case v of
        Ref a \<Rightarrow> a < length (heap s) \<and> subclass_of (class_of (heap s ! a)) C
      | _ \<Rightarrow> False)"

section \<open>The class Option\<close>

text \<open>
  \<^verbatim>\<open>public isSome(): boolean { return this instanceof Some; }\<close>
  \<^verbatim>\<open>public isNone(): boolean { return this instanceof None; }\<close>
\<close>

definition isSome :: "'w state \<Rightarrow> addr \<Rightarrow> bool" where
  "isSome s this = instanceof s (Ref this) SomeC"

definition isNone :: "'w state \<Rightarrow> addr \<Rightarrow> bool" where
  "isNone s this = instanceof s (Ref this) NoneC"

text \<open>
  The body of the base constructor, run on the freshly allocated \<^verbatim>\<open>this\<close>:
  \<^verbatim>\<open>
  public constructor(value: T) {
    if (!this.isSome() && !this.isNone()) {
      throw OptionError.illegalInstantiation();
    }
    this._value = value;
  }
  \<close>
\<close>

definition Option_constructor :: "addr \<Rightarrow> val \<Rightarrow> (unit, 'w) prog" where
  "Option_constructor this v s =
     (if \<not> isSome s this \<and> \<not> isNone s this then (Inl illegalInstantiation, s)
      else (Inr (), s\<lparr>heap := (heap s)[this := (heap s ! this)\<lparr>priv_value := v\<rparr>]\<rparr>))"

text \<open>
  \<^verbatim>\<open>new C(value)\<close> for one of the three classes: an object of class \<open>C\<close> is allocated at
  the next address, with \<^verbatim>\<open>_value\<close> not yet set, and the base constructor runs on it
  (\<^verbatim>\<open>Some\<close> declares no constructor and so forwards its argument; \<^verbatim>\<open>None\<close> passes
  \<^verbatim>\<open>undefined\<close>, see \<open>new_None\<close>). When the constructor throws, the half-built object
  is referenced from nowhere, and the heap is left as it was.
\<close>

definition new_obj :: "cls \<Rightarrow> val \<Rightarrow> (addr, 'w) prog" where
  "new_obj C v s =
     (let this = length (heap s);
          s1 = s\<lparr>heap := heap s @ [\<lparr>class_of = C, priv_value = Undefined\<rparr>]\<rparr>
      in case Option_constructor this v s1 of
           (Inl e, s2) \<Rightarrow> (Inl e, s)
         | (Inr u, s2) \<Rightarrow> (Inr this, s2))"

definition new_Option :: "val \<Rightarrow> (addr, 'w) prog" where
  "new_Option v = new_obj OptionC v"

definition new_Some :: "val \<Rightarrow> (addr, 'w) prog" where
  "new_Some v = new_obj SomeC v"

text \<open>\<^verbatim>\<open>public constructor() { super(undefined as never); }\<close>\<close>

definition new_None :: "(addr, 'w) prog" where
  "new_None = new_obj NoneC Undefined"

text \<open>\<^verbatim>\<open>public static default<U>(): None<U> { return new None(); }\<close>\<close>

definition default_O :: "(addr, 'w) prog" where
  "default_O = new_None"

text \<open>
  \<^verbatim>\<open>
  public unwrap(): T {
    if (this.isSome()) { return this._value; }
    throw OptionError.illegalUnwrap();
  }
  \<close>
\<close>

definition unwrap :: "addr \<Rightarrow> (val, 'w) prog" where
  "unwrap this s =
     (if isSome s this then (Inr (priv_value (heap s ! this)), s)
      else (Inl illegalUnwrap, s))"

definition unwrapOr :: "addr \<Rightarrow> val \<Rightarrow> (val, 'w) prog" where
  "unwrapOr this fallback s =
     (if isSome s this then unwrap this s else (Inr fallback, s))"

definition unwrapOrElse :: "addr \<Rightarrow> (val, 'w) prog \<Rightarrow> (val, 'w) prog" where
  "unwrapOrElse this op s =
     (if isSome s this then unwrap this s else op s)"

text \<open>
  \<^verbatim>\<open>
  public map<U>(op: (value: T) => U): Option<U> {
    if (this.isSome()) { return new Some<U>(op(this.unwrap())); }
    return new None();
  }
  \<close>
\<close>

definition map_O :: "addr \<Rightarrow> (val \<Rightarrow> (val, 'w) prog) \<Rightarrow> (addr, 'w) prog" where
  "map_O this op s =
     (if isSome s this
      then seqP (unwrap this) (\<lambda>v. seqP (op v) (\<lambda>u. new_Some u)) s
      else new_None s)"

definition mapOr :: "addr \<Rightarrow> 'u \<Rightarrow> (val \<Rightarrow> ('u, 'w) prog) \<Rightarrow> ('u, 'w) prog" where
  "mapOr this fallback op s =
     (if isSome s this then seqP (unwrap this) op s else (Inr fallback, s))"

definition mapOrElse ::
    "addr \<Rightarrow> ('u, 'w) prog \<Rightarrow> (val \<Rightarrow> ('u, 'w) prog) \<Rightarrow> ('u, 'w) prog" where
  "mapOrElse this fallback op s =
     (if isSome s this then seqP (unwrap this) op s else fallback s)"

definition and_O :: "addr \<Rightarrow> addr \<Rightarrow> (addr, 'w) prog" where
  "and_O this optb s =
     (if isSome s this then (Inr optb, s) else new_None s)"

text \<open>
  \<^verbatim>\<open>
  public andThen<U>(op: (value: T) => Option<U>): Option<U> {
    if (this.isSome()) { return op(this.unwrap()); }
    return new None<U>();
  }
  \<close>
\<close>

definition andThen :: "addr \<Rightarrow> (val \<Rightarrow> (addr, 'w) prog) \<Rightarrow> (addr, 'w) prog" where
  "andThen this op s =
     (if isSome s this then seqP (unwrap this) op s else new_None s)"

text \<open>
  \<^verbatim>\<open>
  public filter(op: (value: T) => boolean): Option<T> {
    return this.andThen((val: T): Option<T> => op(val) ? this : new None<T>());
  }
  \<close>
\<close>

definition filter_O :: "addr \<Rightarrow> (val \<Rightarrow> (bool, 'w) prog) \<Rightarrow> (addr, 'w) prog" where
  "filter_O this op =
     andThen this
       (\<lambda>val. seqP (op val) (\<lambda>b s. if b then (Inr this, s) else new_None s))"

definition or_O :: "addr \<Rightarrow> addr \<Rightarrow> (addr, 'w) prog" where
  "or_O this optb s =
     (if isSome s this then (Inr this, s) else (Inr optb, s))"

definition orElse :: "addr \<Rightarrow> (addr, 'w) prog \<Rightarrow> (addr, 'w) prog" where
  "orElse this op s =
     (if isSome s this then (Inr this, s) else op s)"

text \<open>
  \<^verbatim>\<open>
  public xor(optb: Option<T>): Option<T> {
    if (this.isSome()) {
      if (optb.isSome()) { return new None<T>(); }
      return this;
    }
    if (optb.isSome()) { return optb; }
    return new None<T>();
  }
  \<close>
\<close>

definition xor_O :: "addr \<Rightarrow> addr \<Rightarrow> (addr, 'w) prog" where
  "xor_O this optb s =
     (if isSome s this
      then (if isSome s optb then new_None s else (Inr this, s))
      else if isSome s optb then (Inr optb, s)
      else new_None s)"

text \<open>
  \<^verbatim>\<open>
  public flatten(): Option<T> {
    return this.mapOrElse(
      () => new None<T>(),
      (val: T): Option<T> => val instanceof Some ? val : this,
    );
  }
  \<close>
  The result is an \<^verbatim>\<open>Option\<close>, so an address; \<^verbatim>\<open>val instanceof Some\<close> holds of
  references only, and there the result is the address held.
\<close>

definition flatten :: "addr \<Rightarrow> (addr, 'w) prog" where
  "flatten this =
     mapOrElse this new_None
       (\<lambda>val s. (Inr (case val of
                         Ref b \<Rightarrow> if instanceof s val SomeC then b else this
                       | _ \<Rightarrow> this), s))"

section \<open>The factory functions of index.ts\<close>

text \<open>
  \<^verbatim>\<open>export function some<T>(value: T): Some<T> { return new Some<T>(value); }\<close>
  \<^verbatim>\<open>export function none<T>(): None<T> { return new None<T>(); }\<close>
\<close>

definition some :: "val \<Rightarrow> (addr, 'w) prog" where
  "some v = new_Some v"

definition none :: "(addr, 'w) prog" where
  "none = new_None"

section \<open>Notions used to state the properties\<close>

text \<open>The state after one more object has been allocated.\<close>

definition alloc :: "'w state \<Rightarrow> obj \<Rightarrow> 'w state" where
  "alloc s ob = s\<lparr>heap := heap s @ [ob]\<rparr>"

text \<open>
  \<open>extends s s'\<close>: every object of \<open>s\<close> is still there in \<open>s'\<close>, unchanged; \<open>s'\<close> may hold
  more objects. Instances are immutable once built, so code that runs between \<open>s\<close> and
  \<open>s'\<close> can only allocate.
\<close>

definition extends :: "'w state \<Rightarrow> 'w state \<Rightarrow> bool" where
  "extends s s' = (take (length (heap s)) (heap s') = heap s)"

text \<open>The two kinds of object the constructors build.\<close>

abbreviation Some_obj :: "val \<Rightarrow> obj" where
  "Some_obj v \<equiv> \<lparr>class_of = SomeC, priv_value = v\<rparr>"

abbreviation None_obj :: obj where
  "None_obj \<equiv> \<lparr>class_of = NoneC, priv_value = Undefined\<rparr>"

text \<open>
  A caller-supplied function that only allocates: whatever it is applied to and however it
  ends, the objects that existed before are unchanged after.
\<close>

definition only_allocates :: "('a \<Rightarrow> ('b, 'w) prog) \<Rightarrow> bool" where
  "only_allocates op = (\<forall>v t out t'. op v t = (out, t') \<longrightarrow> extends t t')"

text \<open>The reference is to an instance in exactly one of the two variant states.\<close>

definition is_variant :: "'w state \<Rightarrow> addr \<Rightarrow> bool" where
  "is_variant s a = (isSome s a \<noteq> isNone s a)"

text \<open>
  Two instances agree as values: both are \<^verbatim>\<open>Some\<close> and hold the same value, or both
  are \<^verbatim>\<open>None\<close>.
\<close>

definition same_value :: "'w state \<Rightarrow> addr \<Rightarrow> 'w state \<Rightarrow> addr \<Rightarrow> bool" where
  "same_value s1 r1 s2 r2 =
     (isSome s1 r1 \<and> isSome s2 r2 \<and> priv_value (heap s1 ! r1) = priv_value (heap s2 ! r2)
      \<or> isNone s1 r1 \<and> isNone s2 r2)"

text \<open>
  \<^verbatim>\<open>filter\<close> as the specification words it, by cases: the receiver itself if it is
  \<^verbatim>\<open>Some\<close> and the predicate holds of its value, a new \<^verbatim>\<open>None\<close> if it is \<^verbatim>\<open>Some\<close> and the
  predicate does not hold, and a new \<^verbatim>\<open>None\<close> otherwise.
\<close>

definition filter_spec :: "addr \<Rightarrow> (val \<Rightarrow> (bool, 'w) prog) \<Rightarrow> (addr, 'w) prog" where
  "filter_spec this predicate s =
     (if isSome s this
      then (case predicate (priv_value (heap s ! this)) s of
              (Inl e, s1) \<Rightarrow> (Inl e, s1)
            | (Inr b, s1) \<Rightarrow>
                if b then (Inr this, s1)
                else (Inr (length (heap s1)), alloc s1 None_obj))
      else (Inr (length (heap s)), alloc s None_obj))"

section \<open>Concrete inputs\<close>

text \<open>
  A small heap on which the properties below are instantiated: a \<^verbatim>\<open>None\<close> at address 0,
  a \<^verbatim>\<open>Some\<close> holding that \<^verbatim>\<open>None\<close> at 1, \<^verbatim>\<open>Some('foo')\<close> at 2, and a \<^verbatim>\<open>Some\<close> holding the
  \<^verbatim>\<open>Some\<close> of address 2 at 3. The caller's part of the state is a counter.
\<close>

definition demo :: "nat state" where
  "demo = \<lparr>heap = [None_obj, Some_obj (Ref 0), Some_obj (Str ''foo''), Some_obj (Ref 2)],
            world = 0\<rparr>"

text \<open>A caller-supplied function that throws its argument: \<^verbatim>\<open>v => { throw v; }\<close>.\<close>

definition throwing :: "val \<Rightarrow> ('a, 'w) prog" where
  "throwing v s = (Inl (Thrown v), s)"

text \<open>The predicate \<^verbatim>\<open>x => x === 'foo'\<close> of the test suite, for any string.\<close>

definition is_str :: "string \<Rightarrow> val \<Rightarrow> (bool, 'w) prog" where
  "is_str x v s = (Inr (v = Str x), s)"

text \<open>
  The function \<^verbatim>\<open>x => `${x}bar`\<close> of the test suite, which also counts its calls in the
  caller's part of the state.
\<close>

definition append_bar :: "val \<Rightarrow> (val, nat) prog" where
  "append_bar v s =
     (Inr (case v of Str x \<Rightarrow> Str (x @ ''bar'') | _ \<Rightarrow> v), s\<lparr>world := Suc (world s)\<rparr>)"

section \<open>Basic facts\<close>

lemma isSome_iff: "isSome s a \<longleftrightarrow> a < length (heap s) \<and> class_of (heap s ! a) = SomeC"
  by (simp add: isSome_def instanceof_def)

lemma isNone_iff: "isNone s a \<longleftrightarrow> a < length (heap s) \<and> class_of (heap s ! a) = NoneC"
  by (simp add: isNone_def instanceof_def)

lemma not_both: "\<not> (isSome s a \<and> isNone s a)"
  by (simp add: isSome_iff isNone_iff)

lemma heap_alloc: "heap (alloc s ob) = heap s @ [ob]"
  by (simp add: alloc_def)

lemma world_alloc: "world (alloc s ob) = world s"
  by (simp add: alloc_def)

lemma isSome_alloc:
  "isSome (alloc s ob) a \<longleftrightarrow> isSome s a \<or> (a = length (heap s) \<and> class_of ob = SomeC)"
  by (auto simp: isSome_iff heap_alloc nth_append)

lemma isNone_alloc:
  "isNone (alloc s ob) a \<longleftrightarrow> isNone s a \<or> (a = length (heap s) \<and> class_of ob = NoneC)"
  by (auto simp: isNone_iff heap_alloc nth_append)

lemma new_obj_Option: "new_obj OptionC v s = (Inl illegalInstantiation, s)"
  by (simp add: new_obj_def Option_constructor_def isSome_iff isNone_iff Let_def)

lemma new_obj_Some: "new_obj SomeC v s = (Inr (length (heap s)), alloc s (Some_obj v))"
  by (simp add: new_obj_def Option_constructor_def isSome_iff isNone_iff alloc_def Let_def)

lemma new_obj_None:
  "new_obj NoneC v s = (Inr (length (heap s)), alloc s \<lparr>class_of = NoneC, priv_value = v\<rparr>)"
  by (simp add: new_obj_def Option_constructor_def isSome_iff isNone_iff alloc_def Let_def)

lemma new_Some_eq: "new_Some v s = (Inr (length (heap s)), alloc s (Some_obj v))"
  by (simp add: new_Some_def new_obj_Some)

lemma new_None_eq: "new_None s = (Inr (length (heap s)), alloc s None_obj)"
  by (simp add: new_None_def new_obj_None)

lemma unwrap_Some: "isSome s a \<Longrightarrow> unwrap a s = (Inr (priv_value (heap s ! a)), s)"
  by (simp add: unwrap_def)

lemma extends_isSome: "extends s s' \<Longrightarrow> isSome s a \<Longrightarrow> isSome s' a"
  unfolding extends_def isSome_iff
  by (metis length_take min.strict_boundedE nth_take)

lemma extends_isNone: "extends s s' \<Longrightarrow> isNone s a \<Longrightarrow> isNone s' a"
  unfolding extends_def isNone_iff
  by (metis length_take min.strict_boundedE nth_take)

lemma extends_live: "extends s s' \<Longrightarrow> live s a \<Longrightarrow> live s' a \<and> heap s' ! a = heap s ! a"
  unfolding extends_def live_def
  by (metis length_take min.strict_boundedE nth_take)

lemma extends_alloc: "extends s (alloc s ob)"
  by (simp add: extends_def heap_alloc)

lemma extends_length: "extends s s' \<Longrightarrow> length (heap s) \<le> length (heap s')"
proof -
  assume "extends s s'"
  then have "length (take (length (heap s)) (heap s')) = length (heap s)"
    by (simp add: extends_def)
  then show ?thesis by simp
qed

lemma fresh_not_Some: "\<not> isSome s (length (heap s))"
  by (simp add: isSome_iff)

lemma fresh_not_None: "\<not> isNone s (length (heap s))"
  by (simp add: isNone_iff)

section \<open>What each operation computes\<close>

lemma unwrap_fail_iff: "fst (unwrap this s) = Inl e \<longleftrightarrow> \<not> isSome s this \<and> e = illegalUnwrap"
  by (auto simp: unwrap_def)

lemma unwrapOr_total: "\<exists>v. unwrapOr this fb s = (Inr v, s)"
  by (simp add: unwrapOr_def unwrap_def)

lemma unwrapOrElse_fail:
  "fst (unwrapOrElse this f s) = Inl e \<Longrightarrow> \<not> isSome s this \<and> fst (f s) = Inl e"
  by (auto simp: unwrapOrElse_def unwrap_def split: if_splits)

lemma seq_unwrap: "isSome s this \<Longrightarrow> seqP (unwrap this) f s = f (priv_value (heap s ! this)) s"
  by (simp add: seqP_def unwrap_def)

lemma map_O_Some:
  "isSome s this \<Longrightarrow> map_O this op s =
     (case op (priv_value (heap s ! this)) s of
        (Inl e, s1) \<Rightarrow> (Inl e, s1)
      | (Inr u, s1) \<Rightarrow> (Inr (length (heap s1)), alloc s1 (Some_obj u)))"
  by (simp add: map_O_def seq_unwrap) (simp add: seqP_def new_Some_eq split: prod.splits sum.splits)

lemma map_O_not_Some:
  "\<not> isSome s this \<Longrightarrow> map_O this op s = (Inr (length (heap s)), alloc s None_obj)"
  by (simp add: map_O_def new_None_eq)

lemma map_O_fail:
  "fst (map_O this op s) = Inl e \<Longrightarrow>
     isSome s this \<and> fst (op (priv_value (heap s ! this)) s) = Inl e"
  by (cases "isSome s this") (auto simp: map_O_Some map_O_not_Some split: prod.splits sum.splits)

lemma mapOr_fail:
  "fst (mapOr this fb op s) = Inl e \<Longrightarrow>
     isSome s this \<and> fst (op (priv_value (heap s ! this)) s) = Inl e"
  by (cases "isSome s this") (auto simp: mapOr_def seq_unwrap)

lemma mapOrElse_fail:
  "fst (mapOrElse this f op s) = Inl e \<Longrightarrow>
     (if isSome s this then fst (op (priv_value (heap s ! this)) s) = Inl e
      else fst (f s) = Inl e)"
  by (cases "isSome s this") (auto simp: mapOrElse_def seq_unwrap)

lemma and_O_total: "\<exists>r s'. and_O this optb s = (Inr r, s')"
  by (simp add: and_O_def new_None_eq)

lemma andThen_Some:
  "isSome s this \<Longrightarrow> andThen this op s = op (priv_value (heap s ! this)) s"
  by (simp add: andThen_def seq_unwrap)

lemma andThen_not_Some:
  "\<not> isSome s this \<Longrightarrow> andThen this op s = (Inr (length (heap s)), alloc s None_obj)"
  by (simp add: andThen_def new_None_eq)

lemma andThen_fail:
  "fst (andThen this op s) = Inl e \<Longrightarrow>
     isSome s this \<and> fst (op (priv_value (heap s ! this)) s) = Inl e"
  by (cases "isSome s this") (auto simp: andThen_Some andThen_not_Some)

lemma filter_O_Some:
  "isSome s this \<Longrightarrow> filter_O this op s =
     (case op (priv_value (heap s ! this)) s of
        (Inl e, s1) \<Rightarrow> (Inl e, s1)
      | (Inr b, s1) \<Rightarrow> if b then (Inr this, s1) else (Inr (length (heap s1)), alloc s1 None_obj))"
  by (simp add: filter_O_def andThen_Some) (simp add: seqP_def new_None_eq split: prod.splits sum.splits)

lemma filter_O_not_Some:
  "\<not> isSome s this \<Longrightarrow> filter_O this op s = (Inr (length (heap s)), alloc s None_obj)"
  by (simp add: filter_O_def andThen_not_Some)

lemma filter_O_fail:
  "fst (filter_O this op s) = Inl e \<Longrightarrow>
     isSome s this \<and> fst (op (priv_value (heap s ! this)) s) = Inl e"
  by (cases "isSome s this")
     (auto simp: filter_O_Some filter_O_not_Some split: prod.splits sum.splits if_splits)

lemma or_O_total: "\<exists>r. or_O this optb s = (Inr r, s)"
  by (simp add: or_O_def)

lemma orElse_fail: "fst (orElse this f s) = Inl e \<Longrightarrow> \<not> isSome s this \<and> fst (f s) = Inl e"
  by (auto simp: orElse_def split: if_splits)

lemma xor_O_total: "\<exists>r s'. xor_O this optb s = (Inr r, s')"
  by (simp add: xor_O_def new_None_eq)

lemma flatten_Some:
  "isSome s this \<Longrightarrow> flatten this s =
     (Inr (case priv_value (heap s ! this) of
             Ref b \<Rightarrow> if isSome s b then b else this
           | _ \<Rightarrow> this), s)"
  by (simp add: flatten_def mapOrElse_def seq_unwrap isSome_def split: val.splits)

lemma flatten_not_Some:
  "\<not> isSome s this \<Longrightarrow> flatten this s = (Inr (length (heap s)), alloc s None_obj)"
  by (simp add: flatten_def mapOrElse_def new_None_eq)

lemma flatten_total: "\<exists>r s'. flatten this s = (Inr r, s')"
  by (cases "isSome s this") (simp_all add: flatten_Some flatten_not_Some)

section \<open>The concrete heap\<close>

lemma demo_Some:
  "isSome demo 2" "isSome demo 1" "isSome demo (Suc 0)" "isSome demo 3" "\<not> isSome demo 0"
  by (simp_all add: demo_def isSome_iff)

lemma demo_None:
  "isNone demo 0" "\<not> isNone demo 1" "\<not> isNone demo (Suc 0)" "\<not> isNone demo 2"
  "\<not> isNone demo 3"
  by (simp_all add: demo_def isNone_iff)

lemma demo_value:
  "priv_value (heap demo ! 1) = Ref 0" "priv_value (heap demo ! Suc 0) = Ref 0"
  "priv_value (heap demo ! 2) = Str ''foo''"
  "priv_value (heap demo ! 3) = Ref 2" "length (heap demo) = 4"
  by (simp_all add: demo_def)

lemma demo_live: "live demo 0" "live demo 1" "live demo 2" "live demo 3" "\<not> live demo 4"
  by (simp_all add: demo_def live_def)

section \<open>Construction\<close>

text \<open>
  Claim C5. Constructing the base class directly, \<^verbatim>\<open>new Option(v)\<close>, throws the
  \<^verbatim>\<open>OptionError\<close> of \<^verbatim>\<open>illegalInstantiation\<close> and leaves the state as it was. Among the
  three classes the base class is the only one whose construction throws that error:
  \<^verbatim>\<open>new Some(v)\<close> and \<^verbatim>\<open>new None()\<close>, and the factories \<^verbatim>\<open>some\<close> and \<^verbatim>\<open>none\<close> built on
  them, always return the address of a newly allocated instance.
\<close>

theorem construction_contract:
  "new_Option v s = (Inl illegalInstantiation, s)
   \<and> (fst (new_obj C v s) = Inl illegalInstantiation \<longleftrightarrow> C = OptionC)
   \<and> new_Some v s = (Inr (length (heap s)), alloc s (Some_obj v))
   \<and> new_None s = (Inr (length (heap s)), alloc s None_obj)
   \<and> some v s = (Inr (length (heap s)), alloc s (Some_obj v))
   \<and> none s = (Inr (length (heap s)), alloc s None_obj)"
  by (cases C) (simp_all add: new_Option_def new_obj_Option new_obj_Some new_obj_None
      new_Some_eq new_None_eq some_def none_def)

text \<open>
  Claim C7. For every value \<open>v\<close>, \<^verbatim>\<open>some(v)\<close> returns an instance that is \<^verbatim>\<open>Some\<close> and not
  \<^verbatim>\<open>None\<close> and whose \<^verbatim>\<open>unwrap()\<close> returns exactly \<open>v\<close>. The wrapped value is never
  inspected: in particular \<^verbatim>\<open>some(null)\<close> and \<^verbatim>\<open>some(undefined)\<close> are \<^verbatim>\<open>Some\<close>.
\<close>

theorem some_unwrap:
  "(case some v s of
      (Inr a, s') \<Rightarrow> unwrap a s' = (Inr v, s') \<and> isSome s' a \<and> \<not> isNone s' a
    | (Inl e, s') \<Rightarrow> False)
   \<and> (case some Null s of (Inr a, s') \<Rightarrow> isSome s' a | (Inl e, s') \<Rightarrow> False)
   \<and> (case some Undefined s of (Inr a, s') \<Rightarrow> isSome s' a | (Inl e, s') \<Rightarrow> False)"
  by (simp add: some_def new_Some_eq unwrap_def isSome_alloc isNone_alloc heap_alloc
      fresh_not_None)

text \<open>
  Claim C9. The static \<^verbatim>\<open>Option.default()\<close> returns a newly constructed \<^verbatim>\<open>None\<close>: the
  call never throws, the instance returned did not exist before the call, its
  \<^verbatim>\<open>isNone()\<close> is true and its \<^verbatim>\<open>isSome()\<close> is false.
\<close>

theorem default_fresh_None:
  "(case default_O s of
      (Inr a, s') \<Rightarrow> isNone s' a \<and> \<not> isSome s' a \<and> \<not> live s a \<and> s' = alloc s None_obj
    | (Inl e, s') \<Rightarrow> False)"
  by (simp add: default_O_def new_None_eq isSome_alloc isNone_alloc fresh_not_Some live_def)

section \<open>Extraction and failure\<close>

text \<open>
  Claim C1. On a receiver that is \<^verbatim>\<open>Some\<close> or \<^verbatim>\<open>None\<close>, \<^verbatim>\<open>unwrap()\<close> returns the held
  value when the receiver is \<^verbatim>\<open>Some\<close>, and throws the \<^verbatim>\<open>OptionError\<close> of
  \<^verbatim>\<open>illegalUnwrap\<close> if and only if the receiver is \<^verbatim>\<open>None\<close>; it throws nothing else.
  No other operation throws of its own: \<^verbatim>\<open>unwrapOr\<close>, \<^verbatim>\<open>and\<close>, \<^verbatim>\<open>or\<close>, \<^verbatim>\<open>xor\<close> and
  \<^verbatim>\<open>flatten\<close> always return, and whenever \<^verbatim>\<open>unwrapOrElse\<close>, \<^verbatim>\<open>map\<close>, \<^verbatim>\<open>mapOr\<close>,
  \<^verbatim>\<open>mapOrElse\<close>, \<^verbatim>\<open>andThen\<close>, \<^verbatim>\<open>filter\<close> or \<^verbatim>\<open>orElse\<close> ends with an exception, it is the
  exception that the caller-supplied function threw when the operation called it.
\<close>

theorem unwrap_only_failure:
  assumes "isSome s this \<or> isNone s this"
  shows "(isSome s this \<longrightarrow> unwrap this s = (Inr (priv_value (heap s ! this)), s))
   \<and> (fst (unwrap this s) = Inl illegalUnwrap \<longleftrightarrow> isNone s this)
   \<and> (\<forall>e. fst (unwrap this s) = Inl e \<longrightarrow> e = illegalUnwrap)
   \<and> (\<exists>v. unwrapOr this fb s = (Inr v, s))
   \<and> (\<forall>e. fst (unwrapOrElse this f s) = Inl e \<longrightarrow> fst (f s) = Inl e)
   \<and> (\<forall>e. fst (map_O this op s) = Inl e \<longrightarrow> fst (op (priv_value (heap s ! this)) s) = Inl e)
   \<and> (\<forall>e. fst (mapOr this fbu opu s) = Inl e \<longrightarrow>
          fst (opu (priv_value (heap s ! this)) s) = Inl e)
   \<and> (\<forall>e. fst (mapOrElse this fu opu s) = Inl e \<longrightarrow>
          fst (opu (priv_value (heap s ! this)) s) = Inl e \<or> fst (fu s) = Inl e)
   \<and> (\<exists>r s'. and_O this optb s = (Inr r, s'))
   \<and> (\<forall>e. fst (andThen this opo s) = Inl e \<longrightarrow>
          fst (opo (priv_value (heap s ! this)) s) = Inl e)
   \<and> (\<forall>e. fst (filter_O this p s) = Inl e \<longrightarrow> fst (p (priv_value (heap s ! this)) s) = Inl e)
   \<and> (\<exists>r. or_O this optb s = (Inr r, s))
   \<and> (\<forall>e. fst (orElse this g s) = Inl e \<longrightarrow> fst (g s) = Inl e)
   \<and> (\<exists>r s'. xor_O this optb s = (Inr r, s'))
   \<and> (\<exists>r s'. flatten this s = (Inr r, s'))"
proof -
  have u1: "isSome s this \<longrightarrow> unwrap this s = (Inr (priv_value (heap s ! this)), s)"
    by (simp add: unwrap_Some)
  have u2: "fst (unwrap this s) = Inl illegalUnwrap \<longleftrightarrow> isNone s this"
    using assms not_both [of s this] by (auto simp: unwrap_fail_iff)
  have u3: "\<forall>e. fst (unwrap this s) = Inl e \<longrightarrow> e = illegalUnwrap"
    by (simp add: unwrap_fail_iff)
  have m: "\<forall>e. fst (mapOrElse this fu opu s) = Inl e \<longrightarrow>
          fst (opu (priv_value (heap s ! this)) s) = Inl e \<or> fst (fu s) = Inl e"
    using mapOrElse_fail [of this fu opu s] by (auto split: if_splits)
  show ?thesis
    using u1 u2 u3 m unwrapOr_total [of this fb s] unwrapOrElse_fail [of this f s]
      map_O_fail [of this op s] mapOr_fail [of this fbu opu s] and_O_total [of this optb s]
      andThen_fail [of this opo s] filter_O_fail [of this p s] or_O_total [of this optb s]
      orElse_fail [of this g s] xor_O_total [of this optb s] flatten_total [of this s]
    by blast
qed


theorem unwrap_only_failure_witness:
  "(isSome demo 2 \<or> isNone demo 2)
   \<and> unwrap 2 demo = (Inr (Str ''foo''), demo)
   \<and> (isSome demo 0 \<or> isNone demo 0)
   \<and> fst (unwrap 0 demo) = Inl illegalUnwrap
   \<and> fst (map_O 2 throwing demo) = Inl (Thrown (Str ''foo''))
   \<and> fst (throwing (Str ''foo'') demo :: (exn + val) \<times> nat state) = Inl (Thrown (Str ''foo''))
   \<and> fst (orElse 0 (throwing Null) demo) = Inl (Thrown Null)
   \<and> fst (throwing Null demo :: (exn + addr) \<times> nat state) = Inl (Thrown Null)"
proof -
  have h2: "isSome demo 2 \<or> isNone demo 2" and h0: "isSome demo 0 \<or> isNone demo 0"
    by (simp_all add: demo_Some demo_None)
  note at2 = unwrap_only_failure [OF h2, where fb = Null and f = "throwing Null"
      and op = throwing and fbu = Null and opu = throwing and fu = "throwing Null"
      and optb = 0 and opo = throwing and p = throwing and g = "throwing Null"]
  note at0 = unwrap_only_failure [OF h0, where fb = Null and f = "throwing Null"
      and op = throwing and fbu = Null and opu = throwing and fu = "throwing Null"
      and optb = 0 and opo = throwing and p = throwing and g = "throwing Null"]
  have a: "unwrap 2 demo = (Inr (Str ''foo''), demo)"
    using at2 by (simp add: demo_Some demo_value)
  have b: "fst (unwrap 0 demo) = Inl illegalUnwrap"
    using at0 by (simp add: demo_None)
  have m: "fst (map_O 2 throwing demo) = Inl (Thrown (Str ''foo''))"
    by (simp add: map_O_Some demo_Some demo_value throwing_def)
  have c: "fst (throwing (Str ''foo'') demo :: (exn + val) \<times> nat state)
             = Inl (Thrown (Str ''foo''))"
    using m at2 by (simp add: demo_value)
  have e: "fst (orElse 0 (throwing Null) demo) = Inl (Thrown Null)"
    by (simp add: orElse_def demo_Some throwing_def)
  have d: "fst (throwing Null demo :: (exn + addr) \<times> nat state) = Inl (Thrown Null)"
    using e at0 by simp
  show ?thesis
    using h2 h0 a b m c e d by simp
qed


section \<open>Flattening\<close>

text \<open>
  Claim C2. \<^verbatim>\<open>flatten()\<close> on a \<^verbatim>\<open>Some\<close> whose held value is itself a \<^verbatim>\<open>Some\<close> returns that
  inner instance. On a \<^verbatim>\<open>Some\<close> whose held value is not an instance of \<^verbatim>\<open>Some\<close> it returns
  the receiver itself, the same address; that covers a held \<^verbatim>\<open>None\<close>, so that flattening
  \<^verbatim>\<open>Some(None)\<close> gives \<^verbatim>\<open>Some(None)\<close> back and not \<^verbatim>\<open>None\<close>, and a held value that is no
  reference at all. On a \<^verbatim>\<open>None\<close> it returns a newly allocated \<^verbatim>\<open>None\<close>. In the first two
  cases the state is unchanged.
\<close>

theorem flatten_spec:
  "(isSome s this \<and> priv_value (heap s ! this) = Ref b \<and> isSome s b \<longrightarrow>
      flatten this s = (Inr b, s))
   \<and> (isSome s this \<and> \<not> instanceof s (priv_value (heap s ! this)) SomeC \<longrightarrow>
      flatten this s = (Inr this, s))
   \<and> (isSome s this \<and> priv_value (heap s ! this) = Ref b \<and> isNone s b \<longrightarrow>
      flatten this s = (Inr this, s))
   \<and> (isSome s this \<and> (\<forall>c. priv_value (heap s ! this) \<noteq> Ref c) \<longrightarrow>
      flatten this s = (Inr this, s))
   \<and> (isNone s this \<longrightarrow>
      flatten this s = (Inr (length (heap s)), alloc s None_obj)
      \<and> \<not> live s (length (heap s))
      \<and> isNone (alloc s None_obj) (length (heap s)))"
proof -
  have a: "isSome s this \<and> priv_value (heap s ! this) = Ref b \<and> isSome s b \<longrightarrow>
      flatten this s = (Inr b, s)"
    by (simp add: flatten_Some)
  have b: "isSome s this \<and> \<not> instanceof s (priv_value (heap s ! this)) SomeC \<longrightarrow>
      flatten this s = (Inr this, s)"
    by (auto simp: flatten_Some isSome_def split: val.splits)
  have c: "isSome s this \<and> priv_value (heap s ! this) = Ref b \<and> isNone s b \<longrightarrow>
      flatten this s = (Inr this, s)"
    using not_both [of s b] by (auto simp: flatten_Some)
  have d: "isSome s this \<and> (\<forall>c. priv_value (heap s ! this) \<noteq> Ref c) \<longrightarrow>
      flatten this s = (Inr this, s)"
    by (auto simp: flatten_Some split: val.splits)
  have e: "isNone s this \<longrightarrow>
      flatten this s = (Inr (length (heap s)), alloc s None_obj)
      \<and> \<not> live s (length (heap s))
      \<and> isNone (alloc s None_obj) (length (heap s))"
    using not_both [of s this] by (auto simp: flatten_not_Some live_def isNone_alloc)
  show ?thesis using a b c d e by blast
qed

theorem flatten_spec_witness:
  "isSome demo 3 \<and> priv_value (heap demo ! 3) = Ref 2 \<and> isSome demo 2
   \<and> flatten 3 demo = (Inr 2, demo)
   \<and> isSome demo 1 \<and> priv_value (heap demo ! 1) = Ref 0 \<and> isNone demo 0
   \<and> \<not> instanceof demo (priv_value (heap demo ! 1)) SomeC
   \<and> flatten 1 demo = (Inr 1, demo)
   \<and> (\<forall>c. priv_value (heap demo ! 2) \<noteq> Ref c)
   \<and> flatten 2 demo = (Inr 2, demo)
   \<and> flatten 0 demo = (Inr 4, alloc demo None_obj)"
  using flatten_spec [of demo 3 2] flatten_spec [of demo 1 0] flatten_spec [of demo 2 0]
    flatten_spec [of demo 0 0]
  by (simp add: demo_Some demo_None demo_value isSome_def [symmetric])

section \<open>Filtering\<close>

text \<open>
  Claim C3. \<^verbatim>\<open>filter(predicate)\<close> is \<^verbatim>\<open>andThen\<close> applied to the function that runs the
  predicate and yields the receiver when it holds and a new \<^verbatim>\<open>None\<close> when it does not,
  and it equals the case-by-case description \<open>filter_spec\<close> on every state: the receiver
  itself when the receiver is \<^verbatim>\<open>Some\<close> and the predicate returns true, a newly allocated
  \<^verbatim>\<open>None\<close> when the receiver is \<^verbatim>\<open>Some\<close> and the predicate returns false, and a newly
  allocated \<^verbatim>\<open>None\<close> when the receiver is \<^verbatim>\<open>None\<close>.
\<close>

theorem filter_refines:
  "filter_O this p =
     andThen this (\<lambda>v. seqP (p v) (\<lambda>b t. if b then (Inr this, t) else new_None t))
   \<and> filter_O this p s = filter_spec this p s
   \<and> (isSome s this \<and> p (priv_value (heap s ! this)) s = (Inr True, s1) \<longrightarrow>
        filter_O this p s = (Inr this, s1))
   \<and> (isSome s this \<and> p (priv_value (heap s ! this)) s = (Inr False, s1) \<longrightarrow>
        filter_O this p s = (Inr (length (heap s1)), alloc s1 None_obj)
        \<and> \<not> live s1 (length (heap s1)) \<and> isNone (alloc s1 None_obj) (length (heap s1)))
   \<and> (isNone s this \<longrightarrow>
        filter_O this p s = (Inr (length (heap s)), alloc s None_obj)
        \<and> \<not> live s (length (heap s)) \<and> isNone (alloc s None_obj) (length (heap s)))"
proof -
  have a: "filter_O this p =
     andThen this (\<lambda>v. seqP (p v) (\<lambda>b t. if b then (Inr this, t) else new_None t))"
    by (simp add: filter_O_def)
  have b: "filter_O this p s = filter_spec this p s"
    by (cases "isSome s this") (simp_all add: filter_O_Some filter_O_not_Some filter_spec_def)
  have c: "isSome s this \<and> p (priv_value (heap s ! this)) s = (Inr True, s1) \<longrightarrow>
        filter_O this p s = (Inr this, s1)"
    by (simp add: filter_O_Some)
  have d: "isSome s this \<and> p (priv_value (heap s ! this)) s = (Inr False, s1) \<longrightarrow>
        filter_O this p s = (Inr (length (heap s1)), alloc s1 None_obj)
        \<and> \<not> live s1 (length (heap s1)) \<and> isNone (alloc s1 None_obj) (length (heap s1))"
    by (simp add: filter_O_Some live_def isNone_alloc)
  have e: "isNone s this \<longrightarrow>
        filter_O this p s = (Inr (length (heap s)), alloc s None_obj)
        \<and> \<not> live s (length (heap s)) \<and> isNone (alloc s None_obj) (length (heap s))"
    using not_both [of s this] by (auto simp: filter_O_not_Some live_def isNone_alloc)
  show ?thesis using a b c d e by blast
qed

theorem filter_refines_witness:
  "isSome demo 2 \<and> is_str ''foo'' (priv_value (heap demo ! 2)) demo = (Inr True, demo)
   \<and> filter_O 2 (is_str ''foo'') demo = (Inr 2, demo)
   \<and> is_str ''bar'' (priv_value (heap demo ! 2)) demo = (Inr False, demo)
   \<and> filter_O 2 (is_str ''bar'') demo = (Inr 4, alloc demo None_obj)
   \<and> isNone demo 0
   \<and> filter_O 0 (is_str ''foo'') demo = (Inr 4, alloc demo None_obj)"
  using filter_refines [of 2 "is_str ''foo''" demo demo, THEN conjunct2, THEN conjunct2]
    filter_refines [of 2 "is_str ''bar''" demo demo, THEN conjunct2, THEN conjunct2]
    filter_refines [of 0 "is_str ''foo''" demo demo, THEN conjunct2, THEN conjunct2]
  by (simp add: demo_Some demo_None demo_value is_str_def)


section \<open>Exclusive or\<close>

lemma xor_O_cases:
  "xor_O a b s =
     (if isSome s a \<noteq> isSome s b then (Inr (if isSome s a then a else b), s)
      else (Inr (length (heap s)), alloc s None_obj))"
  by (simp add: xor_O_def new_None_eq)

text \<open>
  Claim C4. For instances \<open>a\<close> and \<open>b\<close>, \<^verbatim>\<open>a.xor(b)\<close> never throws, and its result is \<^verbatim>\<open>Some\<close>
  if and only if exactly one of \<open>a\<close>, \<open>b\<close> is \<^verbatim>\<open>Some\<close>; the result is then that operand
  itself and the state is unchanged. When both are \<^verbatim>\<open>Some\<close> or neither is, the result is a
  \<^verbatim>\<open>None\<close> allocated by the call: it did not exist before and is neither \<open>a\<close> nor \<open>b\<close>.
\<close>

theorem xor_spec:
  assumes "live s a" and "live s b"
  shows "case xor_O a b s of
           (Inl e, s') \<Rightarrow> False
         | (Inr r, s') \<Rightarrow>
             (isSome s' r \<longleftrightarrow> (isSome s a \<noteq> isSome s b))
             \<and> (isSome s a \<and> \<not> isSome s b \<longrightarrow> r = a \<and> s' = s)
             \<and> (\<not> isSome s a \<and> isSome s b \<longrightarrow> r = b \<and> s' = s)
             \<and> ((isSome s a \<longleftrightarrow> isSome s b) \<longrightarrow>
                  isNone s' r \<and> \<not> isSome s' r \<and> r \<noteq> a \<and> r \<noteq> b \<and> \<not> live s r
                  \<and> r = length (heap s) \<and> s' = alloc s None_obj)"
  using assms
  by (auto simp: xor_O_cases isSome_alloc isNone_alloc fresh_not_Some live_def)

theorem xor_spec_witness:
  "live demo 2 \<and> live demo 0 \<and> live demo 3
   \<and> xor_O 2 0 demo = (Inr 2, demo)
   \<and> xor_O 0 2 demo = (Inr 2, demo)
   \<and> xor_O 2 3 demo = (Inr 4, alloc demo None_obj)
   \<and> xor_O 0 0 demo = (Inr 4, alloc demo None_obj)"
  using xor_spec [of demo 2 0] xor_spec [of demo 0 2] xor_spec [of demo 2 3]
    xor_spec [of demo 0 0]
  by (auto simp: demo_live demo_Some demo_value split: prod.splits sum.splits)

text \<open>
  Claim C10. \<^verbatim>\<open>xor\<close> is commutative as far as values go: \<^verbatim>\<open>a.xor(b)\<close> and \<^verbatim>\<open>b.xor(a)\<close>, run
  from the same state, give the same result; in particular both results are \<^verbatim>\<open>Some\<close>
  holding the same value, or both are \<^verbatim>\<open>None\<close>. The same agreement holds when \<^verbatim>\<open>b.xor(a)\<close>
  runs after \<^verbatim>\<open>a.xor(b)\<close>, on the state the first call left.
\<close>

theorem xor_commutes:
  "xor_O a b s = xor_O b a s
   \<and> (case (xor_O a b s, xor_O b a s) of
         ((Inr r1, s1), (Inr r2, s2)) \<Rightarrow> same_value s1 r1 s2 r2
       | _ \<Rightarrow> False)
   \<and> (case xor_O a b s of
         (Inr r1, s1) \<Rightarrow>
           (case xor_O b a s1 of
              (Inr r2, s2) \<Rightarrow> same_value s2 r1 s2 r2
            | (Inl e, s2) \<Rightarrow> False)
       | (Inl e, s1) \<Rightarrow> False)"
proof -
  have a: "xor_O a b s = xor_O b a s"
    by (auto simp: xor_O_cases)
  have b: "(case (xor_O a b s, xor_O b a s) of
         ((Inr r1, s1), (Inr r2, s2)) \<Rightarrow> same_value s1 r1 s2 r2
       | _ \<Rightarrow> False)"
    by (auto simp: xor_O_cases same_value_def isSome_alloc isNone_alloc isSome_iff)
  have c: "(case xor_O a b s of
         (Inr r1, s1) \<Rightarrow>
           (case xor_O b a s1 of
              (Inr r2, s2) \<Rightarrow> same_value s2 r1 s2 r2
            | (Inl e, s2) \<Rightarrow> False)
       | (Inl e, s1) \<Rightarrow> False)"
    by (auto simp: xor_O_cases same_value_def isSome_alloc isNone_alloc heap_alloc)
  show ?thesis using a b c by blast
qed


section \<open>Mapping\<close>

lemma map_O_world:
  fixes op :: "val \<Rightarrow> (val, 'w) prog" and count :: "'w \<Rightarrow> nat"
  assumes tick: "\<forall>v t out t'. op v t = (out, t') \<longrightarrow> count (world t') = Suc (count (world t))"
  shows "count (world (snd (map_O this op s))) =
           (if isSome s this then Suc (count (world s)) else count (world s))"
proof (cases "isSome s this")
  case True
  obtain out s1 where o: "op (priv_value (heap s ! this)) s = (out, s1)"
    by (cases "op (priv_value (heap s ! this)) s")
  with tick have "count (world s1) = Suc (count (world s))" by blast
  with True o show ?thesis
    by (cases out) (simp_all add: map_O_Some world_alloc)
next
  case False
  then show ?thesis by (simp add: map_O_not_Some world_alloc)
qed

lemma map_O_new:
  fixes op :: "val \<Rightarrow> (val, 'w) prog"
  assumes "map_O this op s = (Inr r, s')" and "live s this" and "only_allocates op"
  shows "r \<noteq> this \<and> \<not> live s r"
proof (cases "isSome s this")
  case True
  obtain out s1 where o: "op (priv_value (heap s ! this)) s = (out, s1)"
    by (cases "op (priv_value (heap s ! this)) s")
  with assms(3) have e: "extends s s1" unfolding only_allocates_def by blast
  from True o assms(1) have r: "r = length (heap s1)"
    by (cases out) (simp_all add: map_O_Some)
  from e have "length (heap s) \<le> length (heap s1)"
    by (rule extends_length)
  with r assms(2) show ?thesis by (auto simp: live_def)
next
  case False
  with assms show ?thesis by (auto simp: map_O_not_Some live_def)
qed

text \<open>
  Claim C6. On a \<^verbatim>\<open>Some\<close> holding \<open>v\<close>, \<^verbatim>\<open>map(op)\<close> runs \<open>op\<close> on \<open>v\<close> and returns a newly
  allocated \<^verbatim>\<open>Some\<close> that holds the result; on a \<^verbatim>\<open>None\<close> it returns a newly allocated
  \<^verbatim>\<open>None\<close>. The instance returned is never the receiver and did not exist before the
  call, provided \<open>op\<close> leaves existing objects alone. \<open>op\<close> is called at most once, and
  only when the receiver is \<^verbatim>\<open>Some\<close>: for every counter that each call of \<open>op\<close> advances
  by one, the call of \<^verbatim>\<open>map\<close> advances it by one when the receiver is \<^verbatim>\<open>Some\<close> and
  leaves it unchanged otherwise.
\<close>

theorem map_spec:
  fixes op :: "val \<Rightarrow> (val, 'w) prog" and count :: "'w \<Rightarrow> nat"
  shows
  "(isSome s this \<and> op (priv_value (heap s ! this)) s = (Inr u, s1) \<longrightarrow>
      map_O this op s = (Inr (length (heap s1)), alloc s1 (Some_obj u))
      \<and> isSome (alloc s1 (Some_obj u)) (length (heap s1))
      \<and> unwrap (length (heap s1)) (alloc s1 (Some_obj u)) = (Inr u, alloc s1 (Some_obj u))
      \<and> \<not> live s1 (length (heap s1)))
   \<and> (isNone s this \<longrightarrow>
      map_O this op s = (Inr (length (heap s)), alloc s None_obj)
      \<and> isNone (alloc s None_obj) (length (heap s))
      \<and> \<not> live s (length (heap s)))
   \<and> (\<forall>r s'. map_O this op s = (Inr r, s') \<and> live s this \<and> only_allocates op \<longrightarrow>
        r \<noteq> this \<and> \<not> live s r)
   \<and> ((\<forall>v t out t'. op v t = (out, t') \<longrightarrow> count (world t') = Suc (count (world t))) \<longrightarrow>
        count (world (snd (map_O this op s))) \<le> Suc (count (world s))
        \<and> (count (world (snd (map_O this op s))) = Suc (count (world s)) \<longleftrightarrow> isSome s this))"
proof -
  have a: "isSome s this \<and> op (priv_value (heap s ! this)) s = (Inr u, s1) \<longrightarrow>
      map_O this op s = (Inr (length (heap s1)), alloc s1 (Some_obj u))
      \<and> isSome (alloc s1 (Some_obj u)) (length (heap s1))
      \<and> unwrap (length (heap s1)) (alloc s1 (Some_obj u)) = (Inr u, alloc s1 (Some_obj u))
      \<and> \<not> live s1 (length (heap s1))"
    by (simp add: map_O_Some isSome_alloc unwrap_def heap_alloc live_def)
  have b: "isNone s this \<longrightarrow>
      map_O this op s = (Inr (length (heap s)), alloc s None_obj)
      \<and> isNone (alloc s None_obj) (length (heap s))
      \<and> \<not> live s (length (heap s))"
    using not_both [of s this] by (auto simp: map_O_not_Some isNone_alloc live_def)
  have c: "\<forall>r s'. map_O this op s = (Inr r, s') \<and> live s this \<and> only_allocates op \<longrightarrow>
        r \<noteq> this \<and> \<not> live s r"
    using map_O_new [of this op s] by blast
  have d: "(\<forall>v t out t'. op v t = (out, t') \<longrightarrow> count (world t') = Suc (count (world t))) \<longrightarrow>
        count (world (snd (map_O this op s))) \<le> Suc (count (world s))
        \<and> (count (world (snd (map_O this op s))) = Suc (count (world s)) \<longleftrightarrow> isSome s this)"
    using map_O_world [of op count this s] by auto
  show ?thesis using a b c d by blast
qed

lemma append_bar_allocates: "only_allocates append_bar"
  by (simp add: only_allocates_def append_bar_def extends_def)

lemma append_bar_ticks:
  "\<forall>v t out t'. append_bar v t = (out, t') \<longrightarrow> world t' = Suc (world t)"
  by (auto simp: append_bar_def)

theorem map_spec_witness:
  "isSome demo 2
   \<and> append_bar (priv_value (heap demo ! 2)) demo = (Inr (Str ''foobar''), demo\<lparr>world := 1\<rparr>)
   \<and> map_O 2 append_bar demo =
       (Inr 4, alloc (demo\<lparr>world := 1\<rparr>) (Some_obj (Str ''foobar'')))
   \<and> isNone demo 0
   \<and> map_O 0 append_bar demo = (Inr 4, alloc demo None_obj)
   \<and> live demo 2 \<and> only_allocates append_bar
   \<and> world (snd (map_O 2 append_bar demo)) = 1
   \<and> world (snd (map_O 0 append_bar demo)) = 0"
proof -
  have ab: "append_bar (priv_value (heap demo ! 2)) demo
              = (Inr (Str ''foobar''), demo\<lparr>world := 1\<rparr>)"
    by (simp add: append_bar_def demo_value) (simp add: demo_def)
  have len: "length (heap (demo\<lparr>world := 1\<rparr>)) = 4"
    by (simp add: demo_value)
  note m2 = map_spec [of demo 2 append_bar "Str ''foobar''" "demo\<lparr>world := 1\<rparr>" "\<lambda>n. n"]
  note m0 = map_spec [of demo 0 append_bar "Str ''foobar''" "demo\<lparr>world := 1\<rparr>" "\<lambda>n. n"]
  have w0: "world demo = 0" by (simp add: demo_def)
  have a: "map_O 2 append_bar demo =
       (Inr 4, alloc (demo\<lparr>world := 1\<rparr>) (Some_obj (Str ''foobar'')))"
    using m2 ab len by (simp add: demo_Some)
  have b: "map_O 0 append_bar demo = (Inr 4, alloc demo None_obj)"
    using m0 by (simp add: demo_None demo_value)
  have c: "world (snd (map_O 2 append_bar demo)) = 1"
    using m2 append_bar_ticks w0 by (simp add: demo_Some)
  have d: "world (snd (map_O 0 append_bar demo)) = 0"
    using m0 append_bar_ticks w0 by (simp add: demo_Some) 
  show ?thesis
    using a b c d ab by (simp add: demo_Some demo_None demo_live append_bar_allocates)
qed


section \<open>The two variant states\<close>

lemma is_variant_Some: "isSome s a \<Longrightarrow> is_variant s a"
  using not_both [of s a] by (auto simp: is_variant_def)

lemma is_variant_None: "isNone s a \<Longrightarrow> is_variant s a"
  using not_both [of s a] by (auto simp: is_variant_def)

lemma is_variant_new_Some: "is_variant (alloc s (Some_obj v)) (length (heap s))"
  by (rule is_variant_Some) (simp add: isSome_alloc)

lemma is_variant_new_None: "is_variant (alloc s None_obj) (length (heap s))"
  by (rule is_variant_None) (simp add: isNone_alloc)

lemma is_variant_extends: "extends s s2 \<Longrightarrow> is_variant s a \<Longrightarrow> is_variant s2 a"
  by (metis is_variant_def is_variant_Some is_variant_None extends_isSome extends_isNone)

lemma new_obj_variant: "new_obj C v s = (Inr r, s') \<Longrightarrow> is_variant s' r"
  by (cases C) (auto simp: new_obj_Option new_obj_Some new_obj_None
      intro: is_variant_Some is_variant_None simp: isSome_alloc isNone_alloc)

lemma map_O_variant:
  fixes opv :: "val \<Rightarrow> (val, 'w) prog"
  shows "map_O this opv s = (Inr r, s') \<Longrightarrow> is_variant s' r"
  by (cases "isSome s this")
     (auto simp: map_O_Some map_O_not_Some is_variant_new_Some is_variant_new_None
       split: prod.splits sum.splits)

lemma and_O_variant:
  "is_variant s optb \<Longrightarrow> and_O this optb s = (Inr r, s') \<Longrightarrow> is_variant s' r"
  by (auto simp: and_O_def new_None_eq is_variant_new_None split: if_splits)

lemma andThen_variant:
  fixes opo :: "val \<Rightarrow> (addr, 'w) prog"
  assumes "\<forall>v t r' t'. opo v t = (Inr r', t') \<longrightarrow> is_variant t' r'"
    and "andThen this opo s = (Inr r, s')"
  shows "is_variant s' r"
  using assms
  by (cases "isSome s this") (auto simp: andThen_Some andThen_not_Some is_variant_new_None)

lemma filter_O_variant:
  fixes p :: "val \<Rightarrow> (bool, 'w) prog"
  assumes "only_allocates p" and "filter_O this p s = (Inr r, s')"
  shows "is_variant s' r"
proof (cases "isSome s this")
  case True
  obtain out s1 where o: "p (priv_value (heap s ! this)) s = (out, s1)"
    by (cases "p (priv_value (heap s ! this)) s")
  with assms(1) have "extends s s1" unfolding only_allocates_def by blast
  with True have "is_variant s1 this"
    by (simp add: is_variant_Some extends_isSome)
  with True o assms(2) show ?thesis
    by (cases out) (auto simp: filter_O_Some is_variant_new_None split: if_splits)
next
  case False
  with assms(2) show ?thesis by (auto simp: filter_O_not_Some is_variant_new_None)
qed

lemma or_O_variant:
  "is_variant s optb \<Longrightarrow> or_O this optb s = (Inr r, s') \<Longrightarrow> is_variant s' r"
  by (auto simp: or_O_def is_variant_Some split: if_splits)

lemma orElse_variant:
  fixes g :: "(addr, 'w) prog"
  assumes "\<forall>t r' t'. g t = (Inr r', t') \<longrightarrow> is_variant t' r'"
    and "orElse this g s = (Inr r, s')"
  shows "is_variant s' r"
  using assms by (auto simp: orElse_def is_variant_Some split: if_splits)

lemma xor_O_variant: "xor_O this optb s = (Inr r, s') \<Longrightarrow> is_variant s' r"
  by (auto simp: xor_O_cases is_variant_Some is_variant_new_None split: if_splits)

lemma flatten_variant: "flatten this s = (Inr r, s') \<Longrightarrow> is_variant s' r"
  by (cases "isSome s this")
     (auto simp: flatten_Some flatten_not_Some is_variant_Some is_variant_new_None
       split: val.splits if_splits)

text \<open>
  Claim C8. No instance is both \<^verbatim>\<open>Some\<close> and \<^verbatim>\<open>None\<close>, and every instance obtained through
  the interface is exactly one of the two. That holds of what \<^verbatim>\<open>some\<close> and \<^verbatim>\<open>none\<close> return
  and of every construction that succeeds; it keeps holding of an instance while other
  objects are allocated; and it holds of the result of every operation that returns an
  \<^verbatim>\<open>Option\<close> (\<^verbatim>\<open>default\<close>, \<^verbatim>\<open>map\<close>, \<^verbatim>\<open>and\<close>, \<^verbatim>\<open>andThen\<close>, \<^verbatim>\<open>filter\<close>, \<^verbatim>\<open>or\<close>, \<^verbatim>\<open>orElse\<close>, \<^verbatim>\<open>xor\<close>,
  \<^verbatim>\<open>flatten\<close>), given that an \<^verbatim>\<open>Option\<close> passed in is one, that a caller-supplied function
  declared to return an \<^verbatim>\<open>Option\<close> returns one, and that the predicate of \<^verbatim>\<open>filter\<close>
  leaves existing objects alone.
\<close>

theorem exactly_one_variant:
  fixes opv :: "val \<Rightarrow> (val, 'w) prog" and opo :: "val \<Rightarrow> (addr, 'w) prog"
    and p :: "val \<Rightarrow> (bool, 'w) prog" and g :: "(addr, 'w) prog"
  shows
  "\<not> (isSome s a \<and> isNone s a)
   \<and> (case some v s of (Inr r, s') \<Rightarrow> isSome s' r \<and> \<not> isNone s' r | (Inl e, s') \<Rightarrow> False)
   \<and> (case none s of (Inr r, s') \<Rightarrow> isNone s' r \<and> \<not> isSome s' r | (Inl e, s') \<Rightarrow> False)
   \<and> (case default_O s of
         (Inr r, s') \<Rightarrow> isNone s' r \<and> \<not> isSome s' r
       | (Inl e, s') \<Rightarrow> False)
   \<and> (\<forall>C r s'. new_obj C v s = (Inr r, s') \<longrightarrow> is_variant s' r)
   \<and> (extends s sx \<and> is_variant s a \<longrightarrow> is_variant sx a)
   \<and> (\<forall>r s'. map_O this opv s = (Inr r, s') \<longrightarrow> is_variant s' r)
   \<and> (\<forall>r s'. is_variant s optb \<and> and_O this optb s = (Inr r, s') \<longrightarrow> is_variant s' r)
   \<and> (\<forall>r s'. (\<forall>v t r' t'. opo v t = (Inr r', t') \<longrightarrow> is_variant t' r')
              \<and> andThen this opo s = (Inr r, s') \<longrightarrow> is_variant s' r)
   \<and> (\<forall>r s'. only_allocates p \<and> filter_O this p s = (Inr r, s') \<longrightarrow> is_variant s' r)
   \<and> (\<forall>r s'. is_variant s optb \<and> or_O this optb s = (Inr r, s') \<longrightarrow> is_variant s' r)
   \<and> (\<forall>r s'. (\<forall>t r' t'. g t = (Inr r', t') \<longrightarrow> is_variant t' r')
              \<and> orElse this g s = (Inr r, s') \<longrightarrow> is_variant s' r)
   \<and> (\<forall>r s'. xor_O this optb s = (Inr r, s') \<longrightarrow> is_variant s' r)
   \<and> (\<forall>r s'. flatten this s = (Inr r, s') \<longrightarrow> is_variant s' r)"
proof -
  have c1: "case some v s of (Inr r, s') \<Rightarrow> isSome s' r \<and> \<not> isNone s' r | (Inl e, s') \<Rightarrow> False"
    by (simp add: some_def new_Some_eq isSome_alloc isNone_alloc fresh_not_None)
  have c2: "case none s of (Inr r, s') \<Rightarrow> isNone s' r \<and> \<not> isSome s' r | (Inl e, s') \<Rightarrow> False"
    by (simp add: none_def new_None_eq isSome_alloc isNone_alloc fresh_not_Some)
  have c3: "case default_O s of
              (Inr r, s') \<Rightarrow> isNone s' r \<and> \<not> isSome s' r
            | (Inl e, s') \<Rightarrow> False"
    by (simp add: default_O_def new_None_eq isSome_alloc isNone_alloc fresh_not_Some)
  show ?thesis
    using c1 c2 c3 not_both [of s a] new_obj_variant [of _ v s] is_variant_extends [of s sx a]
      map_O_variant [of this opv s] and_O_variant [of s optb this]
      andThen_variant [of opo this s] filter_O_variant [of p this s]
      or_O_variant [of s optb this] orElse_variant [of g this s]
      xor_O_variant [of this optb s] flatten_variant [of this s]
    by blast
qed


lemma is_str_allocates: "only_allocates (is_str x)"
  by (simp add: only_allocates_def is_str_def extends_def)

lemma some_returns_variant: "\<forall>v t r' t'. some v t = (Inr r', t') \<longrightarrow> is_variant t' r'"
  by (auto simp: some_def new_Some_eq is_variant_new_Some)

lemma none_returns_variant: "\<forall>t r' t'. none t = (Inr r', t') \<longrightarrow> is_variant t' r'"
  by (auto simp: none_def new_None_eq is_variant_new_None)

theorem exactly_one_variant_witness:
  "is_variant demo 0 \<and> is_variant demo 2
   \<and> extends demo (alloc demo None_obj) \<and> is_variant (alloc demo None_obj) 2
   \<and> new_obj SomeC Null demo = (Inr 4, alloc demo (Some_obj Null))
   \<and> is_variant (alloc demo (Some_obj Null)) 4
   \<and> map_O 2 append_bar demo = (Inr 4, alloc (demo\<lparr>world := 1\<rparr>) (Some_obj (Str ''foobar'')))
   \<and> is_variant (alloc (demo\<lparr>world := 1\<rparr>) (Some_obj (Str ''foobar''))) 4
   \<and> and_O 2 0 demo = (Inr 0, demo)
   \<and> andThen 2 some demo = (Inr 4, alloc demo (Some_obj (Str ''foo'')))
   \<and> is_variant (alloc demo (Some_obj (Str ''foo''))) 4
   \<and> only_allocates (is_str ''foo'' :: val \<Rightarrow> (bool, nat) prog)
   \<and> filter_O 2 (is_str ''foo'') demo = (Inr 2, demo)
   \<and> or_O 0 2 demo = (Inr 2, demo)
   \<and> orElse 0 none demo = (Inr 4, alloc demo None_obj)
   \<and> is_variant (alloc demo None_obj) 4
   \<and> xor_O 2 0 demo = (Inr 2, demo)
   \<and> flatten 3 demo = (Inr 2, demo)"
proof -
  note T = exactly_one_variant [where s = demo and a = 2 and v = Null
      and sx = "alloc demo None_obj" and this = 2 and opv = append_bar and optb = 0
      and opo = some and p = "is_str ''foo''" and g = none]
  note U = exactly_one_variant [where s = demo and a = 0 and v = Null
      and sx = "alloc demo None_obj" and this = 0 and opv = append_bar and optb = 2
      and opo = some and p = "is_str ''foo''" and g = none]
  have v0: "is_variant demo 0" and v2: "is_variant demo 2"
    by (simp_all add: is_variant_def demo_Some demo_None)
  have ex: "extends demo (alloc demo None_obj)"
    by (rule extends_alloc)
  have e1: "new_obj SomeC Null demo = (Inr 4, alloc demo (Some_obj Null))"
    by (simp add: new_obj_Some demo_value)
  have ab: "append_bar (Str ''foo'') demo = (Inr (Str ''foobar''), demo\<lparr>world := 1\<rparr>)"
    by (simp add: append_bar_def) (simp add: demo_def)
  have e2: "map_O 2 append_bar demo
              = (Inr 4, alloc (demo\<lparr>world := 1\<rparr>) (Some_obj (Str ''foobar'')))"
    by (simp add: map_O_Some demo_Some demo_value ab)
  have e3: "and_O 2 0 demo = (Inr 0, demo)"
    by (simp add: and_O_def demo_Some)
  have e4: "andThen 2 some demo = (Inr 4, alloc demo (Some_obj (Str ''foo'')))"
    by (simp add: andThen_Some demo_Some demo_value some_def new_Some_eq)
  have e5: "filter_O 2 (is_str ''foo'') demo = (Inr 2, demo)"
    by (simp add: filter_O_Some demo_Some demo_value is_str_def)
  have e6: "or_O 0 2 demo = (Inr 2, demo)"
    by (simp add: or_O_def demo_Some)
  have e7: "orElse 0 none demo = (Inr 4, alloc demo None_obj)"
    by (simp add: orElse_def demo_Some none_def new_None_eq demo_value)
  have e8: "xor_O 2 0 demo = (Inr 2, demo)"
    by (simp add: xor_O_cases demo_Some)
  have e9: "flatten 3 demo = (Inr 2, demo)"
    by (simp add: flatten_Some demo_Some demo_value)
  have r1: "is_variant (alloc demo None_obj) 2"
    using T ex v2 by blast
  have r2: "is_variant (alloc demo (Some_obj Null)) 4"
    using T e1 by blast
  have r3: "is_variant (alloc (demo\<lparr>world := 1\<rparr>) (Some_obj (Str ''foobar''))) 4"
    using T e2 by blast
  have r4: "is_variant (alloc demo (Some_obj (Str ''foo''))) 4"
    using T e4 some_returns_variant by blast
  have r5: "is_variant (alloc demo None_obj) 4"
    using U e7 none_returns_variant by blast
  show ?thesis
    using v0 v2 ex e1 e2 e3 e4 e5 e6 e7 e8 e9 r1 r2 r3 r4 r5 is_str_allocates by simp
qed


end
